theory Spec2Isabelle
  imports Main "HOL-Library.Log_Nat" "HOL-Library.Monad_Syntax" "HOL-Library.Multiset"
begin

section \<open>Python values\<close>

text \<open>
  The simulation core of \<^verbatim>\<open>pacman4k.py\<close> is embedded function by function.
  Python's unbounded integers are \<^typ>\<open>int\<close>. A finite Python float (an IEEE-754
  binary64 number) is represented by its exact value, a \<^typ>\<open>rat\<close>; every float
  operation is the exact operation followed by \<open>fl\<close>, rounding to the nearest binary64
  number with ties to the even significand. Overflow to infinity (beyond \<open>2^1024\<close>) is not
  represented. Sound synthesis and drawing are outside the model.

  A call that does not return normally (an \<^verbatim>\<open>IndexError\<close> on a malformed grid, a
  \<^verbatim>\<open>while\<close> loop that never ends) has the value \<open>None\<close>.
\<close>

datatype py_error = IndexError | KeyError

definition pow2 :: "int \<Rightarrow> rat" where
  "pow2 e = (if 0 \<le> e then 2 ^ nat e else 1 / 2 ^ nat (- e))"

definition round_half_even :: "rat \<Rightarrow> int" where
  "round_half_even q =
     (let f = \<lfloor>q\<rfloor>; r = q - of_int f
      in if r < 1 / 2 then f else if 1 / 2 < r then f + 1 else if even f then f else f + 1)"

text \<open>
  \<open>float_exp q\<close> is the binary exponent \<open>\<lfloor>log\<^sub>2 \<bar>q\<bar>\<rfloor>\<close> of a non-zero \<open>q\<close>, not below
  the exponent \<open>-1022\<close> of the subnormal numbers; a binary64 number with that exponent is a
  multiple of \<open>2 ^ (float_exp q - 52)\<close>.
\<close>

definition float_exp :: "rat \<Rightarrow> int" where
  "float_exp q =
     (case quotient_of \<bar>q\<bar> of (a, b) \<Rightarrow>
        let e = bitlen a - bitlen b
        in max (- 1022) (if pow2 e \<le> \<bar>q\<bar> then e else e - 1))"

definition fl :: "rat \<Rightarrow> rat" where
  "fl q = (if q = 0 then 0
           else let u = pow2 (float_exp q - 52) in of_int (round_half_even (q / u)) * u)"

definition fadd :: "rat \<Rightarrow> rat \<Rightarrow> rat" where
  "fadd a b = fl (a + b)"

definition fsub :: "rat \<Rightarrow> rat \<Rightarrow> rat" where
  "fsub a b = fl (a - b)"

definition fmul :: "rat \<Rightarrow> rat \<Rightarrow> rat" where
  "fmul a b = fl (a * b)"

text \<open>\<^verbatim>\<open>int(v)\<close> truncates towards zero.\<close>

definition py_int :: "rat \<Rightarrow> int" where
  "py_int v = (if 0 \<le> v then \<lfloor>v\<rfloor> else \<lceil>v\<rceil>)"

text \<open>\<^verbatim>\<open>xs[i]\<close>: a negative index counts from the end, an index out of range raises.\<close>

definition py_index :: "'a list \<Rightarrow> int \<Rightarrow> py_error + 'a" where
  "py_index xs i =
     (if 0 \<le> i \<and> i < int (length xs) then Inr (xs ! nat i)
      else if i < 0 \<and> - int (length xs) \<le> i then Inr (xs ! nat (int (length xs) + i))
      else Inl IndexError)"

text \<open>
  \<^verbatim>\<open>random.shuffle(x)\<close> runs \<^verbatim>\<open>for i in reversed(range(1, len(x))): j = randbelow(i + 1);
  x[i], x[j] = x[j], x[i]\<close>. The random source is a list of naturals, one consumed by each
  \<^verbatim>\<open>randbelow\<close> (reduced modulo its bound; an exhausted source yields 0), so that every
  outcome of the shuffle is the result for some source.
\<close>

type_synonym rng = "nat list"

fun shuffle_from :: "nat \<Rightarrow> rng \<Rightarrow> 'a list \<Rightarrow> 'a list \<times> rng" where
  "shuffle_from 0 rs xs = (xs, rs)"
| "shuffle_from (Suc i) rs xs =
     (let j = (case rs of [] \<Rightarrow> 0 | r # _ \<Rightarrow> r mod Suc (Suc i))
      in shuffle_from i (tl rs) (xs[Suc i := xs ! j, j := xs ! Suc i]))"

definition shuffle :: "rng \<Rightarrow> 'a list \<Rightarrow> 'a list \<times> rng" where
  "shuffle rs xs = shuffle_from (length xs - 1) rs xs"

section \<open>Maze and level configuration\<close>

type_synonym maze = "int list list"

text \<open>The layout; the two border rows of 28 walls are written in two halves.\<close>

definition MAZE :: maze where
  "MAZE =
   [[1,1,1,1,1,1,1,1,1,1,1,1,1,1] @ [1,1,1,1,1,1,1,1,1,1,1,1,1,1],
    [1,2,2,2,2,2,2,2,2,2,2,2,2,1,1,2,2,2,2,2,2,2,2,2,2,2,2,1],
    [1,3,1,1,1,1,2,1,1,1,1,1,2,1,1,2,1,1,1,1,1,2,1,1,1,1,3,1],
    [1,2,1,1,1,1,2,1,1,1,1,1,2,1,1,2,1,1,1,1,1,2,1,1,1,1,2,1],
    [1,2,2,2,2,2,2,2,2,2,2,2,2,2,2,2,2,2,2,2,2,2,2,2,2,2,2,1],
    [1,2,1,1,1,1,2,1,1,2,1,1,1,1,1,1,1,1,2,1,1,2,1,1,1,1,2,1],
    [1,2,2,2,2,2,2,1,1,2,2,2,2,1,1,2,2,2,2,1,1,2,2,2,2,2,2,1],
    [1,1,1,1,1,1,2,1,1,1,1,1,0,1,1,0,1,1,1,1,1,2,1,1,1,1,1,1],
    [0,0,0,0,0,1,2,1,1,1,1,1,0,1,1,0,1,1,1,1,1,2,1,0,0,0,0,0],
    [0,0,0,0,0,1,2,1,1,0,0,0,0,0,0,0,0,0,0,1,1,2,1,0,0,0,0,0],
    [0,0,0,0,0,1,2,1,1,0,1,1,1,4,4,1,1,1,0,1,1,2,1,0,0,0,0,0],
    [1,1,1,1,1,1,2,1,1,0,1,0,0,0,0,0,0,1,0,1,1,2,1,1,1,1,1,1],
    [0,0,0,0,0,0,2,0,0,0,1,0,0,0,0,0,0,1,0,0,0,2,0,0,0,0,0,0],
    [1,1,1,1,1,1,2,1,1,0,1,0,0,0,0,0,0,1,0,1,1,2,1,1,1,1,1,1],
    [0,0,0,0,0,1,2,1,1,0,1,1,1,1,1,1,1,1,0,1,1,2,1,0,0,0,0,0],
    [0,0,0,0,0,1,2,1,1,0,0,0,0,5,5,0,0,0,0,1,1,2,1,0,0,0,0,0],
    [0,0,0,0,0,1,2,1,1,0,1,1,1,1,1,1,1,1,0,1,1,2,1,0,0,0,0,0],
    [1,1,1,1,1,1,2,1,1,0,1,1,1,1,1,1,1,1,0,1,1,2,1,1,1,1,1,1],
    [1,2,2,2,2,2,2,2,2,2,2,2,2,1,1,2,2,2,2,2,2,2,2,2,2,2,2,1],
    [1,2,1,1,1,1,2,1,1,1,1,1,2,1,1,2,1,1,1,1,1,2,1,1,1,1,2,1],
    [1,3,2,2,1,1,2,2,2,2,2,2,2,0,0,2,2,2,2,2,2,2,1,1,2,2,3,1],
    [1,1,1,2,1,1,2,1,1,2,1,1,1,1,1,1,1,1,2,1,1,2,1,1,2,1,1,1],
    [1,2,2,2,2,2,2,1,1,2,2,2,2,1,1,2,2,2,2,1,1,2,2,2,2,2,2,1],
    [1,2,1,1,1,1,1,1,1,1,1,1,2,1,1,2,1,1,1,1,1,1,1,1,1,1,2,1],
    [1,2,2,2,2,2,2,2,2,2,2,2,2,2,2,2,2,2,2,2,2,2,2,2,2,2,2,1],
    [1,1,1,1,1,1,1,1,1,1,1,1,1,1] @ [1,1,1,1,1,1,1,1,1,1,1,1,1,1]]"

text \<open>
  A fruit entry is (points, glyph, name); the glyph is kept as the list of its code points,
  as they stand in the source file.
\<close>

type_synonym fruit_entry = "int \<times> int list \<times> string"

definition FRUITS :: "fruit_entry list" where
  "FRUITS =
   [(100, [63743, 252, 231, 237], ''Cherry''),
    (300, [63743, 252, 231, 236], ''Strawberry''),
    (500, [63743, 252, 231, 228], ''Orange''),
    (500, [63743, 252, 231, 228], ''Orange''),
    (700, [63743, 252, 231, 233], ''Apple''),
    (700, [63743, 252, 231, 233], ''Apple''),
    (1000, [63743, 252, 231, 224], ''Melon''),
    (1000, [63743, 252, 231, 224], ''Melon''),
    (2000, [63743, 252, 232, 220], ''Galaxian''),
    (2000, [63743, 252, 232, 220], ''Galaxian''),
    (3000, [63743, 252, 238, 238], ''Bell''),
    (3000, [63743, 252, 238, 238], ''Bell''),
    (5000, [63743, 252, 238, 235], ''Key'')]"

record level_config =
  pac_speed :: rat
  ghost_speed :: rat
  frightened_time :: int
  fruit :: fruit_entry

text \<open>
  The dictionary \<^verbatim>\<open>configs\<close> of \<^verbatim>\<open>get_level_config\<close>, as an association list from
  the level to (pac_speed, ghost_speed, frightened_time). A decimal literal denotes the
  nearest float.
\<close>

definition configs :: "(int \<times> rat \<times> rat \<times> int) list" where
  "configs =
   [(1, fl (15 / 100), fl (12 / 100), 360),
    (2, fl (16 / 100), fl (13 / 100), 300),
    (3, fl (16 / 100), fl (14 / 100), 240),
    (4, fl (17 / 100), fl (15 / 100), 180),
    (5, fl (17 / 100), fl (16 / 100), 150),
    (6, fl (18 / 100), fl (17 / 100), 120),
    (7, fl (18 / 100), fl (18 / 100), 120),
    (8, fl (19 / 100), fl (19 / 100), 90),
    (9, fl (19 / 100), fl (20 / 100), 60),
    (10, fl (20 / 100), fl (21 / 100), 60),
    (11, fl (20 / 100), fl (22 / 100), 50),
    (12, fl (21 / 100), fl (23 / 100), 40),
    (13, fl (21 / 100), fl (24 / 100), 40),
    (14, fl (22 / 100), fl (25 / 100), 30),
    (15, fl (22 / 100), fl (26 / 100), 30),
    (16, fl (23 / 100), fl (27 / 100), 20),
    (17, fl (23 / 100), fl (28 / 100), 20),
    (18, fl (24 / 100), fl (29 / 100), 10),
    (19, fl (24 / 100), fl (30 / 100), 10),
    (20, fl (25 / 100), fl (31 / 100), 5),
    (21, fl (25 / 100), fl (32 / 100), 0)]"

definition get_level_config :: "int \<Rightarrow> py_error + level_config" where
  "get_level_config lvl =
     (if lvl = 256 then
        Inr \<lparr>pac_speed = fl (5 / 100), ghost_speed = fl (3 / 10), frightened_time = 10,
             fruit = (0, [63743, 252, 237, 196], ''KILL SCREEN'')\<rparr>
      else
        let lvl = min lvl 21 in
        case map_of configs 21 of
          None \<Rightarrow> Inl KeyError
        | Some dflt \<Rightarrow>
            (case (case map_of configs lvl of None \<Rightarrow> dflt | Some c \<Rightarrow> c) of
               (ps, gs, ft) \<Rightarrow>
                 (case (if lvl \<le> 13 then py_index FRUITS (lvl - 1) else py_index FRUITS (- 1)) of
                    Inl e \<Rightarrow> Inl e
                  | Inr f \<Rightarrow>
                      Inr \<lparr>pac_speed = ps, ghost_speed = gs, frightened_time = ft, fruit = f\<rparr>)))"

section \<open>Entities and movement\<close>

text \<open>
  Positions and directions are Python integers throughout: the spawn cells are integer
  constants and every move adds a direction with components in \<open>{-1, 0, 1}\<close>. The fields of
  \<^verbatim>\<open>PacMan\<close> carry the prefix \<open>p_\<close> and those of \<^verbatim>\<open>Ghost\<close> the prefix \<open>g_\<close> where the
  two classes use the same name. Fields that only drive sound and drawing are left out.
\<close>

record pacman =
  p_x :: int
  p_y :: int
  p_dx :: int
  p_dy :: int
  next_dx :: int
  next_dy :: int
  p_speed :: rat
  p_move_accumulator :: rat

record ghost =
  start_x :: int
  start_y :: int
  g_x :: int
  g_y :: int
  personality :: string
  g_dx :: int
  g_dy :: int
  g_speed :: rat
  g_move_accumulator :: rat
  frightened :: bool
  eaten :: bool

definition PacMan :: pacman where
  "PacMan = \<lparr>p_x = 14, p_y = 20, p_dx = 0, p_dy = 0, next_dx = 0, next_dy = 0,
             p_speed = fl (15 / 100), p_move_accumulator = 0\<rparr>"

definition Ghost :: "int \<Rightarrow> int \<Rightarrow> string \<Rightarrow> ghost" where
  "Ghost x y pers =
     \<lparr>start_x = x, start_y = y, g_x = x, g_y = y, personality = pers, g_dx = 0, g_dy = 0,
      g_speed = fl (12 / 100), g_move_accumulator = 0, frightened = False, eaten = False\<rparr>"

definition reset :: "ghost \<Rightarrow> ghost" where
  "reset g = g\<lparr>g_x := start_x g, g_y := start_y g, g_dx := 0, g_dy := - 1,
               frightened := False, eaten := False, g_move_accumulator := 0\<rparr>"

text \<open>
  \<^verbatim>\<open>can_move\<close> takes any numbers as coordinates. The tests are evaluated left to right,
  so \<^verbatim>\<open>maze[0]\<close> is not read when \<open>x < 0\<close>.
\<close>

definition PacMan_can_move :: "rat \<Rightarrow> rat \<Rightarrow> maze \<Rightarrow> bool option" where
  "PacMan_can_move x y mz =
     (if x < 0 then Some False
      else case mz of
        [] \<Rightarrow> None
      | row0 # _ \<Rightarrow>
          if of_nat (length row0) \<le> x \<or> y < 0 \<or> of_nat (length mz) \<le> y then Some False
          else let row = mz ! nat (py_int y)
               in if nat (py_int x) < length row then Some (row ! nat (py_int x) \<noteq> 1)
                  else None)"

definition Ghost_can_move :: "rat \<Rightarrow> rat \<Rightarrow> maze \<Rightarrow> bool option" where
  "Ghost_can_move x y mz =
     (if x < 0 then Some False
      else case mz of
        [] \<Rightarrow> None
      | row0 # _ \<Rightarrow>
          if of_nat (length row0) \<le> x \<or> y < 0 \<or> of_nat (length mz) \<le> y then Some False
          else let row = mz ! nat (py_int y)
               in if nat (py_int x) < length row
                  then (let cell = row ! nat (py_int x) in Some (cell \<noteq> 1))
                  else None)"

subsection \<open>The player\<close>

text \<open>The body of the \<^verbatim>\<open>while\<close> loop of \<^verbatim>\<open>PacMan.update\<close>, after the accumulator is drained.\<close>

definition PacMan_step :: "maze \<Rightarrow> pacman \<Rightarrow> pacman option" where
  "PacMan_step mz p = do {
     turn \<leftarrow> PacMan_can_move (of_int (p_x p + next_dx p)) (of_int (p_y p + next_dy p)) mz;
     let p1 = (if turn then p\<lparr>p_dx := next_dx p, p_dy := next_dy p\<rparr> else p);
     go \<leftarrow> PacMan_can_move (of_int (p_x p1 + p_dx p1)) (of_int (p_y p1 + p_dy p1)) mz;
     Some (if go then p1\<lparr>p_x := p_x p1 + p_dx p1, p_y := p_y p1 + p_dy p1\<rparr> else p1)
   }"

partial_function (option) PacMan_loop :: "maze \<Rightarrow> pacman \<Rightarrow> pacman option" where
  "PacMan_loop mz p =
     (if 1 \<le> p_move_accumulator p then
        Option.bind
          (PacMan_step mz (p\<lparr>p_move_accumulator := fsub (p_move_accumulator p) 1\<rparr>))
          (PacMan_loop mz)
      else Some p)"

declare PacMan_loop.simps [code]

definition PacMan_update :: "maze \<Rightarrow> level_config \<Rightarrow> pacman \<Rightarrow> pacman option" where
  "PacMan_update mz cfg p =
     (let p1 = p\<lparr>p_speed := pac_speed cfg\<rparr>;
          p2 = p1\<lparr>p_move_accumulator := fadd (p_move_accumulator p1) (p_speed p1)\<rparr>
      in PacMan_loop mz p2)"

subsection \<open>The adversaries\<close>

text \<open>\<^verbatim>\<open>dist < min_dist\<close> where \<^verbatim>\<open>min_dist\<close> starts as \<^verbatim>\<open>float('inf')\<close>, here \<open>None\<close>.\<close>

definition below :: "int \<Rightarrow> int option \<Rightarrow> bool" where
  "below distance min_dist = (case min_dist of None \<Rightarrow> True | Some m \<Rightarrow> distance < m)"

definition directions :: "(int \<times> int) list" where
  "directions = [(0, - 1), (0, 1), (- 1, 0), (1, 0)]"

text \<open>The \<^verbatim>\<open>for\<close> loop of \<^verbatim>\<open>return_to_base\<close> on the remaining directions.\<close>

fun base_scan ::
  "maze \<Rightarrow> int \<times> int \<Rightarrow> (int \<times> int) list \<Rightarrow> int option \<times> (int \<times> int)
     \<Rightarrow> (int option \<times> (int \<times> int)) option" where
  "base_scan mz pos [] acc = Some acc"
| "base_scan mz pos (d # ds) acc =
     (let nx = fst pos + fst d; ny = snd pos + snd d in
      do {
        ok \<leftarrow> Ghost_can_move (of_int nx) (of_int ny) mz;
        if ok then
          (let distance = \<bar>nx - 14\<bar> + \<bar>ny - 11\<bar> in
           if below distance (fst acc) then base_scan mz pos ds (Some distance, d)
           else base_scan mz pos ds acc)
        else base_scan mz pos ds acc
      })"

definition return_to_base :: "maze \<Rightarrow> ghost \<Rightarrow> ghost option" where
  "return_to_base mz g = do {
     r \<leftarrow> base_scan mz (g_x g, g_y g) directions (None, (0, 0));
     Some (g\<lparr>g_dx := fst (snd r), g_dy := snd (snd r)\<rparr>)
   }"

text \<open>The \<^verbatim>\<open>for\<close> loop of \<^verbatim>\<open>frightened_move\<close>: the first open direction, if any.\<close>

fun first_open :: "maze \<Rightarrow> int \<times> int \<Rightarrow> (int \<times> int) list \<Rightarrow> (int \<times> int) option option" where
  "first_open mz pos [] = Some None"
| "first_open mz pos (d # ds) = do {
     ok \<leftarrow> Ghost_can_move (of_int (fst pos + fst d)) (of_int (snd pos + snd d)) mz;
     if ok then Some (Some d) else first_open mz pos ds
   }"

definition frightened_move :: "maze \<Rightarrow> rng \<Rightarrow> ghost \<Rightarrow> (ghost \<times> rng) option" where
  "frightened_move mz rs g =
     (let opposite = (- g_dx g, - g_dy g);
          ds = filter (\<lambda>d. d \<noteq> opposite) directions;
          (shuffled, rs') = shuffle rs ds
      in do {
        r \<leftarrow> first_open mz (g_x g, g_y g) shuffled;
        Some (case r of None \<Rightarrow> g | Some d \<Rightarrow> g\<lparr>g_dx := fst d, g_dy := snd d\<rparr>, rs')
      })"

text \<open>The loop of \<^verbatim>\<open>ai_move\<close> that collects \<^verbatim>\<open>valid_dirs\<close>.\<close>

fun valid_scan ::
  "maze \<Rightarrow> int \<times> int \<Rightarrow> int \<times> int \<Rightarrow> (int \<times> int) list \<Rightarrow> (int \<times> int) list option" where
  "valid_scan mz pos opposite [] = Some []"
| "valid_scan mz pos opposite (d # ds) =
     (if d \<noteq> opposite then do {
        ok \<leftarrow> Ghost_can_move (of_int (fst pos + fst d)) (of_int (snd pos + snd d)) mz;
        rest \<leftarrow> valid_scan mz pos opposite ds;
        Some (if ok then d # rest else rest)
      }
      else valid_scan mz pos opposite ds)"

text \<open>
  The minimisation loop that \<^verbatim>\<open>ai_move\<close> runs in every personality branch: squared
  distance from each candidate cell to the target, the first strict minimum wins.
\<close>

fun nearest ::
  "int \<times> int \<Rightarrow> int \<times> int \<Rightarrow> (int \<times> int) list \<Rightarrow> int option \<times> (int \<times> int)
     \<Rightarrow> int option \<times> (int \<times> int)" where
  "nearest target pos [] acc = acc"
| "nearest target pos (d # ds) acc =
     (let nx = fst pos + fst d; ny = snd pos + snd d;
          distance = (nx - fst target)\<^sup>2 + (ny - snd target)\<^sup>2
      in if below distance (fst acc) then nearest target pos ds (Some distance, d)
         else nearest target pos ds acc)"

text \<open>The target of the fickle branch, with \<^verbatim>\<open>blinky_x, blinky_y = pacman.x, pacman.y\<close>.\<close>

definition fickle_target :: "pacman \<Rightarrow> int \<times> int" where
  "fickle_target pac =
     (let blinky_x = p_x pac; blinky_y = p_y pac;
          pivot_x = p_x pac + p_dx pac * 2;
          pivot_y = p_y pac + p_dy pac * 2
      in (pivot_x + (pivot_x - blinky_x), pivot_y + (pivot_y - blinky_y)))"

text \<open>
  The target point of each personality branch. In the last branch
  \<^verbatim>\<open>math.sqrt(d2) > 8\<close> is decided on the integer \<open>d2\<close>: the square root is correctly
  rounded and monotone and \<open>sqrt 64 = 8\<close>, so the test is \<open>64 < d2\<close>.
\<close>

definition ai_target :: "pacman \<Rightarrow> ghost \<Rightarrow> int \<times> int" where
  "ai_target pac g =
     (if personality g = ''chaser'' then (p_x pac, p_y pac)
      else if personality g = ''ambusher'' then (p_x pac + p_dx pac * 4, p_y pac + p_dy pac * 4)
      else if personality g = ''fickle'' then fickle_target pac
      else if 64 < (g_x g - p_x pac)\<^sup>2 + (g_y g - p_y pac)\<^sup>2 then (p_x pac, p_y pac)
      else (0, 25))"

definition ai_move :: "maze \<Rightarrow> pacman \<Rightarrow> ghost \<Rightarrow> ghost option" where
  "ai_move mz pac g =
     (let opposite = (- g_dx g, - g_dy g) in
      do {
        vs \<leftarrow> valid_scan mz (g_x g, g_y g) opposite directions;
        let valid_dirs = (if vs = [] then [opposite] else vs);
        case valid_dirs of
          [] \<Rightarrow> None
        | best_dir # _ \<Rightarrow>
            (let r = nearest (ai_target pac g) (g_x g, g_y g) valid_dirs (None, best_dir)
             in Some (g\<lparr>g_dx := fst (snd r), g_dy := snd (snd r)\<rparr>))
      })"

text \<open>The body of the \<^verbatim>\<open>while\<close> loop of \<^verbatim>\<open>Ghost.update\<close>, after the accumulator is drained.\<close>

definition Ghost_step :: "maze \<Rightarrow> pacman \<Rightarrow> ghost \<times> rng \<Rightarrow> (ghost \<times> rng) option" where
  "Ghost_step mz pac grs =
     (let g = fst grs; rs = snd grs in
      do {
        (g1, rs1) \<leftarrow>
          (if eaten g then
             if \<bar>g_x g - 14\<bar> < 1 \<and> \<bar>g_y g - 11\<bar> < 1
             then Some (g\<lparr>eaten := False, frightened := False\<rparr>, rs)
             else map_option (\<lambda>g'. (g', rs)) (return_to_base mz g)
           else if frightened g then frightened_move mz rs g
           else map_option (\<lambda>g'. (g', rs)) (ai_move mz pac g));
        ok \<leftarrow> Ghost_can_move (of_int (g_x g1 + g_dx g1)) (of_int (g_y g1 + g_dy g1)) mz;
        Some (if ok then g1\<lparr>g_x := g_x g1 + g_dx g1, g_y := g_y g1 + g_dy g1\<rparr> else g1, rs1)
      })"

partial_function (option) Ghost_loop ::
  "maze \<Rightarrow> pacman \<Rightarrow> ghost \<times> rng \<Rightarrow> (ghost \<times> rng) option" where
  "Ghost_loop mz pac grs =
     (if 1 \<le> g_move_accumulator (fst grs) then
        Option.bind
          (Ghost_step mz pac
             ((fst grs)\<lparr>g_move_accumulator := fsub (g_move_accumulator (fst grs)) 1\<rparr>, snd grs))
          (Ghost_loop mz pac)
      else Some grs)"

declare Ghost_loop.simps [code]

definition Ghost_update ::
  "maze \<Rightarrow> pacman \<Rightarrow> level_config \<Rightarrow> ghost \<times> rng \<Rightarrow> (ghost \<times> rng) option" where
  "Ghost_update mz pac cfg grs =
     (let g = fst grs;
          g1 = (if eaten g then g\<lparr>g_speed := 1 / 2\<rparr>
                else if frightened g then g\<lparr>g_speed := fmul (ghost_speed cfg) (1 / 2)\<rparr>
                else g\<lparr>g_speed := ghost_speed cfg\<rparr>);
          g2 = g1\<lparr>g_move_accumulator := fadd (g_move_accumulator g1) (g_speed g1)\<rparr>
      in Ghost_loop mz pac (g2, snd grs))"

text \<open>\<^verbatim>\<open>for ghost in ghosts: ghost.update(maze, pacman, level_config)\<close>\<close>

fun update_ghosts ::
  "maze \<Rightarrow> pacman \<Rightarrow> level_config \<Rightarrow> ghost list \<Rightarrow> rng \<Rightarrow> (ghost list \<times> rng) option" where
  "update_ghosts mz pac cfg [] rs = Some ([], rs)"
| "update_ghosts mz pac cfg (g # gs) rs = do {
     (g', rs1) \<leftarrow> Ghost_update mz pac cfg (g, rs);
     (gs', rs2) \<leftarrow> update_ghosts mz pac cfg gs rs1;
     Some (g' # gs', rs2)
   }"

section \<open>The game loop\<close>

datatype GameState =
  INTRO | GHOST_ROLL | READY | PLAYING | DYING | GAME_OVER | LEVEL_COMPLETE | KILL_SCREEN

datatype key = K_ESCAPE | K_SPACE | K_LEFT | K_RIGHT | K_UP | K_DOWN | K_OTHER

datatype event = QUIT | KEYDOWN key | OTHER_EVENT

text \<open>
  The local variables of \<^verbatim>\<open>main\<close> that the state updates read or write, and the state of
  the random source.
\<close>

record game =
  pacman :: pacman
  ghosts :: "ghost list"
  state :: GameState
  score :: int
  high_score :: int
  lives :: int
  level :: int
  dots_eaten :: int
  power_timer :: int
  intro_timer :: int
  death_timer :: int
  level_complete_timer :: int
  ghost_score :: int
  fruit_timer :: int
  fruit_active :: bool
  maze :: maze
  running :: bool
  random_source :: rng

definition initial_game :: "rng \<Rightarrow> game" where
  "initial_game rs =
     \<lparr>pacman = PacMan,
      ghosts = [Ghost 13 11 ''chaser'', Ghost 14 11 ''ambusher'',
                Ghost 13 12 ''fickle'', Ghost 14 12 ''pokey''],
      state = INTRO, score = 0, high_score = 0, lives = 3, level = 1, dots_eaten = 0,
      power_timer = 0, intro_timer = 0, death_timer = 0, level_complete_timer = 0,
      ghost_score = 200, fruit_timer = 0, fruit_active = False, maze = MAZE,
      running = True, random_source = rs\<rparr>"

definition handle_event :: "event \<Rightarrow> game \<Rightarrow> game" where
  "handle_event ev st =
     (case ev of
        QUIT \<Rightarrow> st\<lparr>running := False\<rparr>
      | OTHER_EVENT \<Rightarrow> st
      | KEYDOWN k \<Rightarrow>
          if k = K_ESCAPE then st\<lparr>running := False\<rparr>
          else if state st = GHOST_ROLL \<and> k = K_SPACE then st\<lparr>state := READY, intro_timer := 0\<rparr>
          else if state st = PLAYING then
            (if k = K_LEFT then st\<lparr>pacman := (pacman st)\<lparr>next_dx := - 1, next_dy := 0\<rparr>\<rparr>
             else if k = K_RIGHT then st\<lparr>pacman := (pacman st)\<lparr>next_dx := 1, next_dy := 0\<rparr>\<rparr>
             else if k = K_UP then st\<lparr>pacman := (pacman st)\<lparr>next_dx := 0, next_dy := - 1\<rparr>\<rparr>
             else if k = K_DOWN then st\<lparr>pacman := (pacman st)\<lparr>next_dx := 0, next_dy := 1\<rparr>\<rparr>
             else st)
          else st)"

subsection \<open>The Playing phase\<close>

text \<open>\<^verbatim>\<open># Power pellet timer\<close>\<close>

definition power_pellet_timer :: "game \<Rightarrow> game" where
  "power_pellet_timer st =
     (if 0 < power_timer st then
        (let st1 = st\<lparr>power_timer := power_timer st - 1\<rparr> in
         if power_timer st1 = 0 then
           st1\<lparr>ghosts := map (\<lambda>g. g\<lparr>frightened := False\<rparr>) (ghosts st1), ghost_score := 200\<rparr>
         else st1)
      else st)"

text \<open>\<^verbatim>\<open># Fruit timer\<close>\<close>

definition update_fruit_timer :: "game \<Rightarrow> game" where
  "update_fruit_timer st =
     (let st1 = (if dots_eaten st = 70 \<or> dots_eaten st = 170 then
                   (if \<not> fruit_active st then st\<lparr>fruit_active := True, fruit_timer := 600\<rparr>
                    else st)
                 else st) in
      if fruit_active st1 then
        (let st2 = st1\<lparr>fruit_timer := fruit_timer st1 - 1\<rparr> in
         if fruit_timer st2 \<le> 0 then st2\<lparr>fruit_active := False\<rparr> else st2)
      else st1)"

text \<open>
  \<^verbatim>\<open># Check pellet eating\<close>. The coordinates are integers, on which \<^verbatim>\<open>int\<close> is the
  identity. \<^verbatim>\<open>maze[y][x] = 0\<close> replaces one cell of row \<open>y\<close>.
\<close>

definition check_pellet_eating :: "level_config \<Rightarrow> game \<Rightarrow> game option" where
  "check_pellet_eating cfg st =
     (let x = p_x (pacman st); y = p_y (pacman st); mz = maze st in
      if 0 \<le> y \<and> y < int (length mz) \<and> 0 \<le> x \<and> x < int (length (mz ! 0)) then
        (let row = mz ! nat y in
         if nat x < length row then
           (let cell = row ! nat x in
            if cell = 2 then
              Some (st\<lparr>maze := mz[nat y := row[nat x := 0]],
                       score := score st + 10, dots_eaten := dots_eaten st + 1\<rparr>)
            else if cell = 3 then
              Some (st\<lparr>maze := mz[nat y := row[nat x := 0]],
                       score := score st + 50,
                       power_timer := frightened_time cfg,
                       ghost_score := 200,
                       ghosts := map (\<lambda>g. if \<not> eaten g then g\<lparr>frightened := True\<rparr> else g)
                                     (ghosts st)\<rparr>)
            else if cell = 5 \<and> fruit_active st then
              Some (st\<lparr>score := score st + fst (fruit cfg), fruit_active := False\<rparr>)
            else Some st)
         else None)
      else Some st)"

text \<open>
  \<^verbatim>\<open># Check ghost collision\<close>: the body of the loop for one ghost, on the variables
  (score, ghost_score, state, death_timer), and the loop.
\<close>

type_synonym collision_vars = "int \<times> int \<times> GameState \<times> int"

definition collide :: "pacman \<Rightarrow> ghost \<Rightarrow> collision_vars \<Rightarrow> ghost \<times> collision_vars" where
  "collide pac g v =
     (case v of (sc, gsc, ph, dt) \<Rightarrow>
        if \<bar>of_int (g_x g - p_x pac)\<bar> < (1 / 2 :: rat) \<and> \<bar>of_int (g_y g - p_y pac)\<bar> < (1 / 2 :: rat)
        then
          (if frightened g then (g\<lparr>eaten := True, frightened := False\<rparr>, (sc + gsc, gsc * 2, ph, dt))
           else if \<not> eaten g then (g, (sc, gsc, DYING, 0))
           else (g, v))
        else (g, v))"

fun collide_all :: "pacman \<Rightarrow> ghost list \<Rightarrow> collision_vars \<Rightarrow> ghost list \<times> collision_vars" where
  "collide_all pac [] v = ([], v)"
| "collide_all pac (g # gs) v =
     (case collide pac g v of (g', v') \<Rightarrow>
        (case collide_all pac gs v' of (gs', v'') \<Rightarrow> (g' # gs', v'')))"

definition check_ghost_collision :: "game \<Rightarrow> game" where
  "check_ghost_collision st =
     (case collide_all (pacman st) (ghosts st)
             (score st, ghost_score st, state st, death_timer st) of
        (gs, (sc, gsc, ph, dt)) \<Rightarrow>
          st\<lparr>ghosts := gs, score := sc, ghost_score := gsc, state := ph, death_timer := dt\<rparr>)"

text \<open>\<^verbatim>\<open># Check level complete\<close>\<close>

definition pellets_left :: "maze \<Rightarrow> int" where
  "pellets_left mz = sum_list (map (\<lambda>row. int (count_list row 2) + int (count_list row 3)) mz)"

definition check_level_complete :: "game \<Rightarrow> game" where
  "check_level_complete st =
     (if pellets_left (maze st) = 0 then st\<lparr>state := LEVEL_COMPLETE, level_complete_timer := 0\<rparr>
      else st)"

text \<open>\<^verbatim>\<open># Update high score\<close>\<close>

definition update_high_score :: "game \<Rightarrow> game" where
  "update_high_score st = (if high_score st < score st then st\<lparr>high_score := score st\<rparr> else st)"

text \<open>\<^verbatim>\<open># Extra life at 10000\<close>; \<^verbatim>\<open>//\<close> is floor division, as \<open>div\<close> on \<^typ>\<open>int\<close>.\<close>

definition extra_life :: "game \<Rightarrow> game" where
  "extra_life st =
     (if (score st - 10) div 10000 < score st div 10000 then st\<lparr>lives := lives st + 1\<rparr> else st)"

text \<open>The branch \<^verbatim>\<open>elif state == GameState.PLAYING\<close>.\<close>

definition playing :: "level_config \<Rightarrow> game \<Rightarrow> game option" where
  "playing cfg st =
     (if level st = 256 then Some (st\<lparr>state := KILL_SCREEN\<rparr>)
      else do {
        pac \<leftarrow> PacMan_update (maze st) cfg (pacman st);
        (gs, rs) \<leftarrow> update_ghosts (maze st) pac cfg (ghosts st) (random_source st);
        let st1 = st\<lparr>pacman := pac, ghosts := gs, random_source := rs\<rparr>;
        let st2 = power_pellet_timer st1;
        let st3 = update_fruit_timer st2;
        st4 \<leftarrow> check_pellet_eating cfg st3;
        let st5 = check_ghost_collision st4;
        let st6 = check_level_complete st5;
        let st7 = update_high_score st6;
        Some (extra_life st7)
      })"

subsection \<open>The other phases\<close>

definition respawn :: "pacman \<Rightarrow> pacman" where
  "respawn p = p\<lparr>p_x := 14, p_y := 20, p_dx := 0, p_dy := 0\<rparr>"

definition dying :: "game \<Rightarrow> game" where
  "dying st =
     (let st1 = st\<lparr>death_timer := death_timer st + 1\<rparr> in
      if 120 < death_timer st1 then
        (let st2 = st1\<lparr>lives := lives st1 - 1\<rparr> in
         if lives st2 \<le> 0 then st2\<lparr>state := GAME_OVER, intro_timer := 0\<rparr>
         else st2\<lparr>pacman := respawn (pacman st2), ghosts := map reset (ghosts st2),
                  state := READY, intro_timer := 0\<rparr>)
      else st1)"

definition level_complete :: "game \<Rightarrow> game" where
  "level_complete st =
     (let st1 = st\<lparr>level_complete_timer := level_complete_timer st + 1\<rparr> in
      if 180 < level_complete_timer st1 then
        (let st2 = st1\<lparr>level := level st1 + 1\<rparr>;
             st3 = (if 256 < level st2 then st2\<lparr>level := 1\<rparr> else st2)
         in st3\<lparr>maze := MAZE, dots_eaten := 0, fruit_active := False,
                 pacman := respawn (pacman st3), ghosts := map reset (ghosts st3),
                 state := READY, intro_timer := 0\<rparr>)
      else st1)"

definition game_over :: "game \<Rightarrow> game" where
  "game_over st =
     (let st1 = st\<lparr>intro_timer := intro_timer st + 1\<rparr> in
      if 300 < intro_timer st1 then
        st1\<lparr>level := 1, score := 0, lives := 3, dots_eaten := 0, maze := MAZE,
            pacman := PacMan, ghosts := map reset (ghosts st1), state := INTRO,
            intro_timer := 0\<rparr>
      else st1)"

text \<open>
  One pass through the body of \<^verbatim>\<open>while running\<close>: the level configuration, the events of
  this frame, then the update of the current phase.
\<close>

definition phase_update :: "level_config \<Rightarrow> game \<Rightarrow> game option" where
  "phase_update cfg st =
     (case state st of
        INTRO \<Rightarrow>
          (let st1 = st\<lparr>intro_timer := intro_timer st + 1\<rparr> in
           Some (if 200 < intro_timer st1 then st1\<lparr>state := GHOST_ROLL, intro_timer := 0\<rparr> else st1))
      | GHOST_ROLL \<Rightarrow> Some (st\<lparr>intro_timer := intro_timer st + 1\<rparr>)
      | READY \<Rightarrow>
          (let st1 = st\<lparr>intro_timer := intro_timer st + 1\<rparr> in
           Some (if 120 < intro_timer st1 then st1\<lparr>state := PLAYING\<rparr> else st1))
      | PLAYING \<Rightarrow> playing cfg st
      | DYING \<Rightarrow> Some (dying st)
      | LEVEL_COMPLETE \<Rightarrow> Some (level_complete st)
      | GAME_OVER \<Rightarrow> Some (game_over st)
      | KILL_SCREEN \<Rightarrow> Some st)"

definition frame :: "event list \<Rightarrow> game \<Rightarrow> game option" where
  "frame evs st =
     (case get_level_config (level st) of
        Inl e \<Rightarrow> None
      | Inr cfg \<Rightarrow> phase_update cfg (fold handle_event evs st))"

text \<open>\<open>n\<close> consecutive calls of a method that may not return.\<close>

fun repeat :: "nat \<Rightarrow> ('a \<Rightarrow> 'a option) \<Rightarrow> 'a \<Rightarrow> 'a option" where
  "repeat 0 f x = Some x"
| "repeat (Suc n) f x = Option.bind (f x) (repeat n f)"

section \<open>Grids and states used in the statements\<close>

text \<open>A grid is rectangular when it has a row and every row is as long as the first.\<close>

definition rectangular :: "maze \<Rightarrow> bool" where
  "rectangular mz = (mz \<noteq> [] \<and> list_all (\<lambda>row. length row = length (mz ! 0)) mz)"

text \<open>
  The state in which a new game enters the Playing phase: the initial values of
  \<^verbatim>\<open>main\<close>, after the intro, the ghost roll call and the 121 frames of the Ready phase.
\<close>

definition fresh_playing :: game where
  "fresh_playing = (initial_game [])\<lparr>state := PLAYING, intro_timer := 121\<rparr>"

text \<open>
  A Playing state at score 9990 with the frightened chaser on the player's cell, so that
  this frame captures it for 200 points.
\<close>

definition capture_at_9990 :: game where
  "capture_at_9990 =
     fresh_playing
       \<lparr>score := 9990, power_timer := 100,
        ghosts := [(Ghost 13 11 ''chaser'')\<lparr>g_x := 14, g_y := 20, frightened := True\<rparr>,
                   Ghost 14 11 ''ambusher'', Ghost 13 12 ''fickle'', Ghost 14 12 ''pokey'']\<rparr>"

text \<open>
  A Playing state at level 21 with the player on the power pellet of cell (1, 2), and one at
  level 1 with the player on the fruit spot (13, 15) while the fruit is active and 70 dots
  have been eaten.
\<close>

definition level21_power_pellet :: game where
  "level21_power_pellet =
     fresh_playing\<lparr>level := 21, score := 500, pacman := PacMan\<lparr>p_x := 1, p_y := 2\<rparr>\<rparr>"

definition fruit_under_player :: game where
  "fruit_under_player =
     fresh_playing\<lparr>score := 500, dots_eaten := 70, fruit_active := True, fruit_timer := 300,
                   pacman := PacMan\<lparr>p_x := 13, p_y := 15\<rparr>\<rparr>"



text \<open>
  The fickle target as the specification words it: the pivot, two cells ahead of the player,
  reflected through the cell of the chaser.
\<close>

definition reflected_fickle_target :: "pacman \<Rightarrow> ghost \<Rightarrow> int \<times> int" where
  "reflected_fickle_target pac chaser =
     (let pivot_x = p_x pac + p_dx pac * 2; pivot_y = p_y pac + p_dy pac * 2
      in (pivot_x + (pivot_x - g_x chaser), pivot_y + (pivot_y - g_y chaser)))"





section \<open>Facts about float rounding\<close>

lemma pow2_powi: "pow2 e = 2 powi e"
  by (simp add: pow2_def power_int_def field_simps)

lemma pow2_pos: "0 < pow2 e"
  by (simp add: pow2_powi)

lemma pow2_add: "pow2 (a + b) = pow2 a * pow2 b"
  by (simp add: pow2_powi power_int_add)

lemma pow2_less_iff: "pow2 a < pow2 b \<longleftrightarrow> a < b"
proof
  assume "pow2 a < pow2 b"
  show "a < b"
  proof (rule ccontr)
    assume "\<not> a < b"
    then have "b \<le> a" by simp
    then have "pow2 b \<le> pow2 a"
      unfolding pow2_powi by (intro power_int_increasing) auto
    with \<open>pow2 a < pow2 b\<close> show False by simp
  qed
next
  assume "a < b"
  then show "pow2 a < pow2 b"
    unfolding pow2_powi by (intro power_int_strict_increasing) auto
qed

lemma pow2_le_iff: "pow2 a \<le> pow2 b \<longleftrightarrow> a \<le> b"
  using pow2_less_iff [of b a] by (auto simp: not_less [symmetric])

lemma pow2_of_nat: "0 \<le> k \<Longrightarrow> pow2 k = 2 ^ nat k"
  by (simp add: pow2_def)

lemma quotient_bitlen_bounds:
  assumes "0 < q" "quotient_of q = (a, b)"
  shows "pow2 (bitlen a - bitlen b - 1) \<le> q \<and> q < pow2 (bitlen a - bitlen b + 1)"
proof -
  have q: "q = of_int a / of_int b" and b: "0 < b"
    using assms(2) by (simp_all add: quotient_of_div quotient_of_denom_pos)
  have a: "0 < a" using assms(1) q b by (simp add: zero_less_divide_iff)
  have la: "1 \<le> bitlen a" and lb: "1 \<le> bitlen b"
    using a b bitlen_eq_zero_iff [of a] bitlen_eq_zero_iff [of b] bitlen_nonneg [of a] bitlen_nonneg [of b]
    by linarith+
  have A1: "pow2 (bitlen a - 1) \<le> of_int a"
  proof -
    have "(2::int) ^ nat (bitlen a - 1) \<le> a" using bitlen_bounds [OF a] by simp
    then have "(of_int ((2::int) ^ nat (bitlen a - 1)) :: rat) \<le> of_int a"
      by (simp only: of_int_le_iff)
    then show ?thesis using la by (simp add: pow2_of_nat)
  qed
  have A2: "of_int a < pow2 (bitlen a)"
  proof -
    have "a < (2::int) ^ nat (bitlen a)" using bitlen_bounds [OF a] by simp
    then have "(of_int a :: rat) < of_int ((2::int) ^ nat (bitlen a))"
      by (simp only: of_int_less_iff)
    then show ?thesis using la by (simp add: pow2_of_nat)
  qed
  have B1: "pow2 (bitlen b - 1) \<le> of_int b"
  proof -
    have "(2::int) ^ nat (bitlen b - 1) \<le> b" using bitlen_bounds [OF b] by simp
    then have "(of_int ((2::int) ^ nat (bitlen b - 1)) :: rat) \<le> of_int b"
      by (simp only: of_int_le_iff)
    then show ?thesis using lb by (simp add: pow2_of_nat)
  qed
  have B2: "of_int b < pow2 (bitlen b)"
  proof -
    have "b < (2::int) ^ nat (bitlen b)" using bitlen_bounds [OF b] by simp
    then have "(of_int b :: rat) < of_int ((2::int) ^ nat (bitlen b))"
      by (simp only: of_int_less_iff)
    then show ?thesis using lb by (simp add: pow2_of_nat)
  qed
  have bpos: "(0::rat) < of_int b" using b by simp
  have apos: "(0::rat) < of_int a" using a by simp
  have lo: "pow2 (bitlen a - bitlen b - 1) \<le> q"
  proof -
    have e: "pow2 (bitlen a - bitlen b - 1) * pow2 (bitlen b) = pow2 (bitlen a - 1)"
      by (simp add: pow2_add [symmetric])
    have "pow2 (bitlen a - bitlen b - 1) * of_int b \<le> pow2 (bitlen a - bitlen b - 1) * pow2 (bitlen b)"
      using B2 pow2_pos [of "bitlen a - bitlen b - 1"] by simp
    then have "pow2 (bitlen a - bitlen b - 1) * of_int b \<le> of_int a"
      using e A1 by simp
    then show ?thesis unfolding q using bpos by (simp add: pos_le_divide_eq)
  qed
  have hi: "q < pow2 (bitlen a - bitlen b + 1)"
  proof -
    have e: "pow2 (bitlen a - bitlen b + 1) * pow2 (bitlen b - 1) = pow2 (bitlen a)"
      by (simp add: pow2_add [symmetric])
    have "pow2 (bitlen a - bitlen b + 1) * pow2 (bitlen b - 1) \<le> pow2 (bitlen a - bitlen b + 1) * of_int b"
      using B1 pow2_pos [of "bitlen a - bitlen b + 1"] by simp
    then have "of_int a < pow2 (bitlen a - bitlen b + 1) * of_int b"
      using e A2 by simp
    then show ?thesis unfolding q using bpos by (simp add: pos_divide_less_eq)
  qed
  show ?thesis using lo hi by simp
qed

lemma float_exp_bounds:
  assumes "q \<noteq> 0" "pow2 (- 1022) \<le> \<bar>q\<bar>"
  shows "pow2 (float_exp q) \<le> \<bar>q\<bar> \<and> \<bar>q\<bar> < pow2 (float_exp q + 1)"
proof -
  obtain a b where ab: "quotient_of \<bar>q\<bar> = (a, b)" by (cases "quotient_of \<bar>q\<bar>")
  have pos: "0 < \<bar>q\<bar>" using assms(1) by simp
  note bb = quotient_bitlen_bounds [OF pos ab]
  define e0 where "e0 = bitlen a - bitlen b"
  define e where "e = (if pow2 e0 \<le> \<bar>q\<bar> then e0 else e0 - 1)"
  have fe: "float_exp q = max (- 1022) e"
    by (simp add: float_exp_def ab e_def e0_def Let_def)
  have eb: "pow2 e \<le> \<bar>q\<bar> \<and> \<bar>q\<bar> < pow2 (e + 1)"
    using bb by (auto simp: e_def e0_def)
  have "- 1022 \<le> e"
  proof (rule ccontr)
    assume "\<not> - 1022 \<le> e"
    then have "e + 1 \<le> - 1022" by simp
    then have "pow2 (e + 1) \<le> pow2 (- 1022)" by (simp only: pow2_le_iff)
    with eb assms(2) show False by simp
  qed
  then show ?thesis using eb fe by simp
qed

lemma float_exp_unique:
  assumes "pow2 e \<le> \<bar>q\<bar>" "\<bar>q\<bar> < pow2 (e + 1)" "- 1022 \<le> e"
  shows "float_exp q = e"
proof -
  have q0: "q \<noteq> 0" using assms(1) pow2_pos [of e] by auto
  have "pow2 (- 1022) \<le> pow2 e" using assms(3) by (simp only: pow2_le_iff)
  then have "pow2 (- 1022) \<le> \<bar>q\<bar>" using assms(1) by simp
  note fb = float_exp_bounds [OF q0 this]
  have "pow2 e < pow2 (float_exp q + 1)" using assms(1) fb by simp
  then have 1: "e < float_exp q + 1" by (simp only: pow2_less_iff)
  have "pow2 (float_exp q) < pow2 (e + 1)" using assms(2) fb by simp
  then have 2: "float_exp q < e + 1" by (simp only: pow2_less_iff)
  show ?thesis using 1 2 by simp
qed

lemma fl_binade:
  assumes "pow2 e \<le> \<bar>q\<bar>" "\<bar>q\<bar> < pow2 (e + 1)" "- 1022 \<le> e"
  shows "fl q = of_int (round_half_even (q / pow2 (e - 52))) * pow2 (e - 52)"
proof -
  have q0: "q \<noteq> 0" using assms(1) pow2_pos [of e] by auto
  show ?thesis using q0 by (simp add: fl_def float_exp_unique [OF assms] Let_def)
qed

lemma round_half_even_of_int: "round_half_even (of_int z) = z"
  by (simp add: round_half_even_def)

lemma fl_exact:
  assumes "0 \<le> m" "m < 2 ^ 53"
  shows "fl (of_int m / 2 ^ 52) = of_int m / 2 ^ 52"
proof (cases "m = 0")
  case True
  then show ?thesis by (simp add: fl_def)
next
  case False
  define q :: rat where "q = of_int m / 2 ^ 52"
  have m1: "1 \<le> m" using assms(1) False by simp
  have qpos: "0 < q" using m1 by (simp add: q_def)
  have q0: "q \<noteq> 0" using qpos by simp
  have "(1::rat) \<le> of_int m" using m1 by simp
  then have lo52: "pow2 (- 52) \<le> q" by (simp add: q_def pow2_def divide_le_cancel)
  have "pow2 (- 1022) \<le> pow2 (- 52)" by (simp only: pow2_le_iff)
  then have lo: "pow2 (- 1022) \<le> \<bar>q\<bar>" using lo52 qpos by simp
  have "(of_int m :: rat) < of_int (2 ^ 53)" using assms(2) by (simp only: of_int_less_iff)
  then have hi: "q < pow2 1" by (simp add: q_def pow2_def)
  define e where "e = float_exp q"
  have fb: "pow2 e \<le> q" using float_exp_bounds [OF q0 lo] qpos by (simp add: e_def)
  have "pow2 e < pow2 1" using fb hi by simp
  then have e0: "e \<le> 0" using pow2_less_iff [of e 1] by simp
  define k where "k = nat (- e)"
  have pe: "pow2 e = 1 / 2 ^ k"
    using e0 by (cases "e = 0") (simp_all add: pow2_def k_def)
  have "pow2 (e - 52) = pow2 e * pow2 (- 52)"
    using pow2_add [of e "- 52"] by simp
  then have u: "pow2 (e - 52) = 1 / (2 ^ 52 * 2 ^ k)"
    by (simp add: pe) (simp add: pow2_def)
  have quo: "q / pow2 (e - 52) = of_int (m * 2 ^ k)"
    by (simp add: u q_def)
  have "fl q = of_int (round_half_even (q / pow2 (e - 52))) * pow2 (e - 52)"
    using q0 by (simp add: fl_def e_def Let_def)
  also have "\<dots> = of_int (m * 2 ^ k) * pow2 (e - 52)"
    by (simp only: quo round_half_even_of_int)
  also have "\<dots> = q" by (simp add: u q_def)
  finally show ?thesis by (simp add: q_def)
qed

lemma floor_rat_numeral:
  "\<lfloor>(numeral a / numeral b :: rat)\<rfloor> = numeral a div numeral b"
  using floor_divide_of_int_eq [of "numeral a" "numeral b", where ?'a = rat] by simp

lemma float_exp_unit: "1 \<le> q \<Longrightarrow> q < 2 \<Longrightarrow> float_exp q = 0"
  by (rule float_exp_unique) (simp_all add: pow2_def)

lemma float_exp_double:
  assumes "1 / 2 ^ 100 \<le> q" "q < 1"
  shows "float_exp q = float_exp (2 * q) - 1"
proof -
  have "(0::rat) < 1 / 2 ^ 100" by simp
  then have qpos: "0 < q" using assms(1) by linarith
  have "pow2 (- 1022) \<le> pow2 (- 100)" by (simp only: pow2_le_iff) 
  also have "pow2 (- 100) = 1 / 2 ^ 100" by (simp add: pow2_def)
  finally have lo: "pow2 (- 1022) \<le> \<bar>2 * q\<bar>" using assms(1) qpos by simp
  have q0: "2 * q \<noteq> 0" using qpos by simp
  define e where "e = float_exp (2 * q)"
  have fb: "pow2 e \<le> 2 * q" "2 * q < pow2 (e + 1)"
    using float_exp_bounds [OF q0 lo] qpos by (simp_all add: e_def)
  have "pow2 (e - 1) * pow2 1 = pow2 e" by (simp add: pow2_add [symmetric])
  then have h1: "pow2 (e - 1) * 2 = pow2 e" by (simp add: pow2_def)
  have h2: "pow2 e * 2 = pow2 (e + 1)" using pow2_add [of e 1] by (simp add: pow2_def)
  have a: "pow2 (e - 1) \<le> \<bar>q\<bar>" using fb(1) h1 qpos by simp
  have b: "\<bar>q\<bar> < pow2 (e - 1 + 1)" using fb(2) h2 qpos by simp
  have "pow2 (- 100) \<le> q" using assms(1) by (simp add: pow2_def)
  then have "pow2 (- 100) < pow2 e" using b by simp
  then have "- 100 < e" by (simp only: pow2_less_iff)
  then have c: "- 1022 \<le> e - 1" by simp
  show ?thesis using float_exp_unique [OF a b c] by (simp add: e_def)
qed

lemmas float_eval = fl_def fadd_def fsub_def fmul_def Let_def pow2_def round_half_even_def
  floor_rat_numeral float_exp_unit float_exp_double

lemma repeat_numeral:
  "repeat (numeral k) f x = Option.bind (f x) (repeat (pred_numeral k) f)"
  by (simp add: numeral_eq_Suc)

section \<open>Level configuration\<close>

lemma configs_21:
  "map_of configs 21 = Some (fl (25 / 100), fl (32 / 100), 0)"
  by (simp add: configs_def)

lemma get_level_config_1:
  "get_level_config 1 =
     Inr \<lparr>pac_speed = 5404319552844595 / 36028797018963968,
          ghost_speed = 1080863910568919 / 9007199254740992,
          frightened_time = 360, fruit = (100, [63743, 252, 231, 237], ''Cherry'')\<rparr>"
proof -
  have "get_level_config 1 =
     Inr \<lparr>pac_speed = fl (15 / 100), ghost_speed = fl (12 / 100),
          frightened_time = 360, fruit = (100, [63743, 252, 231, 237], ''Cherry'')\<rparr>"
    by (simp add: get_level_config_def configs_def FRUITS_def py_index_def)
  then show ?thesis by (simp add: float_eval)
qed

lemma get_level_config_14:
  "get_level_config 14 =
     Inr \<lparr>pac_speed = 7926335344172073 / 36028797018963968, ghost_speed = 1 / 4,
          frightened_time = 30, fruit = (5000, [63743, 252, 238, 235], ''Key'')\<rparr>"
proof -
  have "get_level_config 14 =
     Inr \<lparr>pac_speed = fl (22 / 100), ghost_speed = fl (25 / 100),
          frightened_time = 30, fruit = (5000, [63743, 252, 238, 235], ''Key'')\<rparr>"
    by (simp add: get_level_config_def configs_def FRUITS_def py_index_def)
  then show ?thesis by (simp add: float_eval)
qed

lemma get_level_config_20:
  "get_level_config 20 =
     Inr \<lparr>pac_speed = 1 / 4, ghost_speed = 5584463537939415 / 18014398509481984,
          frightened_time = 5, fruit = (5000, [63743, 252, 238, 235], ''Key'')\<rparr>"
proof -
  have "get_level_config 20 =
     Inr \<lparr>pac_speed = fl (25 / 100), ghost_speed = fl (31 / 100),
          frightened_time = 5, fruit = (5000, [63743, 252, 238, 235], ''Key'')\<rparr>"
    by (simp add: get_level_config_def configs_def FRUITS_def py_index_def)
  then show ?thesis by (simp add: float_eval)
qed

lemma get_level_config_21:
  "get_level_config 21 =
     Inr \<lparr>pac_speed = 1 / 4, ghost_speed = 5764607523034235 / 18014398509481984,
          frightened_time = 0, fruit = (5000, [63743, 252, 238, 235], ''Key'')\<rparr>"
proof -
  have "get_level_config 21 =
     Inr \<lparr>pac_speed = fl (25 / 100), ghost_speed = fl (32 / 100),
          frightened_time = 0, fruit = (5000, [63743, 252, 238, 235], ''Key'')\<rparr>"
    by (simp add: get_level_config_def configs_def FRUITS_def py_index_def)
  then show ?thesis by (simp add: float_eval)
qed


text \<open>
  Below the table the fruit lookup \<^verbatim>\<open>FRUITS[level - 1]\<close> leaves the thirteen entries. The
  game never passes such a level: \<^verbatim>\<open>level\<close> starts at 1, is only incremented, and wraps
  from 257 to 1.
\<close>

lemma get_level_config_below_table: "get_level_config (- 13) = Inl IndexError"
  by (simp add: get_level_config_def configs_def FRUITS_def py_index_def)










section \<open>Evaluation on rectangular grids\<close>

lemma rectangular_row:
  assumes "rectangular mz" "i < length mz"
  shows "length (mz ! i) = length (mz ! 0)"
proof -
  have "\<forall>n<length mz. length (mz ! n) = length (mz ! 0)"
    using assms(1) unfolding rectangular_def list_all_length by blast
  then show ?thesis using assms(2) by blast
qed

lemma py_int_of_int [simp]: "py_int (of_int z) = z"
  by (simp add: py_int_def)

lemma py_int_nonneg: "0 \<le> v \<Longrightarrow> py_int v = \<lfloor>v\<rfloor>"
  by (simp add: py_int_def)

lemma nat_py_int_less:
  assumes "0 \<le> v" "v < of_nat n"
  shows "nat (py_int v) < n"
proof -
  have "\<lfloor>v\<rfloor> < int n" using assms(2) by (simp add: floor_less_iff)
  moreover have "0 \<le> \<lfloor>v\<rfloor>" using assms(1) by simp
  ultimately show ?thesis using assms(1) by (simp add: py_int_nonneg nat_less_iff)
qed

lemma PacMan_can_move_Cons:
  "PacMan_can_move x y (row0 # rest) =
     (if x < 0 \<or> of_nat (length row0) \<le> x \<or> y < 0 \<or> of_nat (Suc (length rest)) \<le> y
      then Some False
      else if nat (py_int x) < length ((row0 # rest) ! nat (py_int y))
           then Some ((row0 # rest) ! nat (py_int y) ! nat (py_int x) \<noteq> 1) else None)"
  unfolding PacMan_can_move_def Let_def by (simp del: of_nat_Suc)

lemma PacMan_can_move_rect:
  assumes "rectangular mz"
  shows "PacMan_can_move x y mz =
    Some (0 \<le> x \<and> x < of_nat (length (mz ! 0)) \<and> 0 \<le> y \<and> y < of_nat (length mz)
          \<and> mz ! nat (py_int y) ! nat (py_int x) \<noteq> 1)"
proof -
  obtain row0 rest where mz: "mz = row0 # rest"
    using assms by (cases mz) (simp_all add: rectangular_def)
  have r0: "length row0 = length (mz ! 0)" by (simp add: mz)
  have h: "Suc (length rest) = length mz" by (simp add: mz)
  define inb where "inb \<longleftrightarrow> 0 \<le> x \<and> x < of_nat (length (mz ! 0)) \<and> 0 \<le> y \<and> y < of_nat (length mz)"
  have out: "(x < 0 \<or> of_nat (length row0) \<le> x \<or> y < 0 \<or> of_nat (Suc (length rest)) \<le> y) \<longleftrightarrow> \<not> inb"
    unfolding inb_def r0 h by (simp only: not_le not_less de_Morgan_conj de_Morgan_disj) 
  show ?thesis
  proof (cases inb)
    case False
    then have "PacMan_can_move x y mz = Some False"
      unfolding mz PacMan_can_move_Cons out by simp
    moreover have "(0 \<le> x \<and> x < of_nat (length (mz ! 0)) \<and> 0 \<le> y \<and> y < of_nat (length mz)
          \<and> mz ! nat (py_int y) ! nat (py_int x) \<noteq> 1) = False"
      using False unfolding inb_def by blast
    ultimately show ?thesis by (simp only:)
  next
    case True
    have y: "nat (py_int y) < length mz" using True unfolding inb_def by (simp add: nat_py_int_less)
    have x: "nat (py_int x) < length (mz ! 0)" using True unfolding inb_def by (simp add: nat_py_int_less)
    have "length (mz ! nat (py_int y)) = length (mz ! 0)"
      using rectangular_row [OF assms y] .
    then have xx: "nat (py_int x) < length (mz ! nat (py_int y))" using x by simp
    have "PacMan_can_move x y mz = Some (mz ! nat (py_int y) ! nat (py_int x) \<noteq> 1)"
      using True xx unfolding mz PacMan_can_move_Cons out by simp
    moreover have "(0 \<le> x \<and> x < of_nat (length (mz ! 0)) \<and> 0 \<le> y \<and> y < of_nat (length mz)
          \<and> mz ! nat (py_int y) ! nat (py_int x) \<noteq> 1) = (mz ! nat (py_int y) ! nat (py_int x) \<noteq> 1)"
      using True unfolding inb_def by blast
    ultimately show ?thesis by (simp only:)
  qed
qed


lemma Ghost_can_move_eq: "Ghost_can_move x y mz = PacMan_can_move x y mz"
  by (simp add: Ghost_can_move_def PacMan_can_move_def Let_def split: list.split)

lemma PacMan_can_move_int:
  assumes "rectangular mz"
  shows "PacMan_can_move (of_int a) (of_int b) mz =
    Some (0 \<le> a \<and> a < int (length (mz ! 0)) \<and> 0 \<le> b \<and> b < int (length mz)
          \<and> mz ! nat b ! nat a \<noteq> 1)"
proof -
  have 1: "(of_int a :: rat) < of_nat (length (mz ! 0)) \<longleftrightarrow> a < int (length (mz ! 0))"
    by (metis of_int_less_iff of_int_of_nat_eq)
  have 2: "(of_int b :: rat) < of_nat (length mz) \<longleftrightarrow> b < int (length mz)"
    by (metis of_int_less_iff of_int_of_nat_eq)
  show ?thesis unfolding PacMan_can_move_rect [OF assms] 1 2 by simp
qed

lemma MAZE_rectangular: "rectangular MAZE"
  by (simp add: rectangular_def MAZE_def)

lemma MAZE_size: "length MAZE = 26" "length (MAZE ! 0) = 28"
  by (simp_all add: MAZE_def)

lemma MAZE_row_20: "MAZE ! 20 = [1,3,2,2,1,1,2,2,2,2,2,2,2,0,0,2,2,2,2,2,2,2,1,1,2,2,3,1]"
  by (simp add: MAZE_def)

lemma pellets_left_MAZE: "pellets_left MAZE = 216"
  by (simp add: pellets_left_def MAZE_def)

lemma check_level_complete_fields:
  "check_level_complete st =
     st\<lparr>state := (if pellets_left (maze st) = 0 then LEVEL_COMPLETE else state st),
        level_complete_timer := (if pellets_left (maze st) = 0 then 0 else level_complete_timer st)\<rparr>"
  by (simp add: check_level_complete_def)

lemmas move_eval = PacMan_update_def PacMan_loop.simps PacMan_step_def 
  Ghost_update_def Ghost_loop.simps Ghost_step_def Ghost_can_move_eq PacMan_can_move_int
  return_to_base_def frightened_move_def ai_move_def ai_target_def fickle_target_def
  directions_def below_def shuffle_def

lemmas playing_eval = playing_def power_pellet_timer_def update_fruit_timer_def
  check_pellet_eating_def check_ghost_collision_def collide_def check_level_complete_fields
  update_high_score_def extra_life_def

lemmas MAZE_eval = MAZE_rectangular MAZE_size MAZE_row_20


lemma bind_weak_cong: "m = m' \<Longrightarrow> Option.bind m f = Option.bind m' f"
  by simp

lemma map_option_weak_cong: "m = m' \<Longrightarrow> map_option f m = map_option f m'"
  by simp

lemmas eval_cong = bind_weak_cong map_option_weak_cong let_weak_cong prod.case_cong_weak
  option.case_cong_weak list.case_cong_weak sum.case_cong_weak

lemma MAZE_row_2: "MAZE ! 2 = [1,3,1,1,1,1,2,1,1,1,1,1,2,1,1,2,1,1,1,1,1,2,1,1,1,1,3,1]"
  by (simp add: MAZE_def)

lemma MAZE_row_15: "MAZE ! 15 = [0,0,0,0,0,1,2,1,1,0,0,0,0,5,5,0,0,0,0,1,1,2,1,0,0,0,0,0]"
  by (simp add: MAZE_def)

lemma pellets_left_after_power_pellet:
  "pellets_left (MAZE[2 := [1,0,1,1,1,1,2,1,1,1,1,1,2,1,1,2,1,1,1,1,1,2,1,1,1,1,3,1]]) = 215"
  by (simp add: pellets_left_def MAZE_def)

lemma rectangular_update:
  assumes "rectangular mz" "length row = length (mz ! 0)"
  shows "rectangular (mz[i := row])"
proof -
  have ne: "mz \<noteq> []" using assms(1) by (simp add: rectangular_def)
  then have pos: "0 < length mz" by simp
  have first: "length (mz[i := row] ! 0) = length (mz ! 0)"
    using pos assms(2) by (cases "i = 0") (simp_all add: nth_list_update)
  have rows: "length (mz[i := row] ! n) = length (mz[i := row] ! 0)" if "n < length mz" for n
  proof (cases "n = i")
    case True
    then have "mz[i := row] ! n = row" using that by simp
    then show ?thesis unfolding first using assms(2) by (simp only:)
  next
    case False
    then have "mz[i := row] ! n = mz ! n" by simp
    then show ?thesis unfolding first using rectangular_row [OF assms(1) that] by (simp only:)
  qed
  have "\<forall>n<length (mz[i := row]). length (mz[i := row] ! n) = length (mz[i := row] ! 0)"
  proof (intro allI impI)
    fix n assume "n < length (mz[i := row])"
    then have "n < length mz" by simp
    then show "length (mz[i := row] ! n) = length (mz[i := row] ! 0)" by (rule rows)
  qed
  moreover have "mz[i := row] \<noteq> []" using ne by simp
  ultimately show ?thesis unfolding rectangular_def list_all_length by blast
qed


lemmas frame_eval = frame_def phase_update_def playing_eval move_eval MAZE_eval float_eval

section \<open>Extra lives\<close>

text \<open>
  C1. The claim: in a Playing tick a score increment that crosses one 10000-point boundary
  grants exactly one extra life, the check firing once per crossing because it compares the
  bucket of the score with the bucket of the score minus the tick's increment. The source
  compares with the bucket of \<^verbatim>\<open>score - 10\<close> whatever the increment was. In the first
  Playing frame of a new game nothing is scored (the score stays 0 and crosses nothing) and
  a life is granted, since \<open>-10 div 10000 = -1\<close>; and in a frame that takes the score from
  9990 to 10190 by a capture, across the boundary, no life is granted.
\<close>

theorem extra_life_misfires:
  "map_option (\<lambda>s. (score s, lives s)) (frame [] fresh_playing) = Some (0, 4) \<and>
   (score capture_at_9990, lives capture_at_9990) = (9990, 3) \<and>
   map_option (\<lambda>s. (score s, lives s)) (frame [] capture_at_9990) = Some (10190, 3)"
  by (simp add: fresh_playing_def capture_at_9990_def get_level_config_1 initial_game_def
        PacMan_def Ghost_def frame_eval cong: eval_cong)

section \<open>Power pellets and the frightened timer\<close>

text \<open>
  C5. The claim: after a power pellet sets the power-mode timer from the level's frightened
  duration, frightened mode ends when the timer reaches zero, also on the levels whose
  duration is 0 (21 and above), where it must end at once. The source ends frightened mode
  inside \<^verbatim>\<open>if power_timer > 0\<close>, after the decrement. At level 21 the pellet sets the
  timer to 0 and frightens the four adversaries; the timer block then never runs, so they
  are still frightened three frames later, and a state whose timer is 0 is left as it is by
  the timer block, whatever else it holds.
\<close>

theorem frightened_never_ends_at_level_21:
  "map_sum id frightened_time (get_level_config 21) = Inr 0 \<and>
   map_option (\<lambda>s. (power_timer s, map frightened (ghosts s))) (frame [] level21_power_pellet)
     = Some (0, [True, True, True, True]) \<and>
   map_option (\<lambda>s. (power_timer s, map frightened (ghosts s)))
     (repeat 3 (frame []) level21_power_pellet) = Some (0, [True, True, True, True]) \<and>
   power_pellet_timer (st\<lparr>power_timer := 0\<rparr>) = st\<lparr>power_timer := 0\<rparr>"
proof -
  have a: "map_sum id frightened_time (get_level_config 21) = Inr 0"
    by (simp add: get_level_config_21)
  have b: "map_option (\<lambda>s. (power_timer s, map frightened (ghosts s)))
      (frame [] level21_power_pellet) = Some (0, [True, True, True, True])"
    by (simp add: level21_power_pellet_def fresh_playing_def get_level_config_21
          initial_game_def PacMan_def Ghost_def frame_eval MAZE_row_2 cong: eval_cong)
  have c: "map_option (\<lambda>s. (power_timer s, map frightened (ghosts s)))
      (repeat 3 (frame []) level21_power_pellet) = Some (0, [True, True, True, True])"
    by (simp add: repeat_numeral level21_power_pellet_def fresh_playing_def
          get_level_config_21 initial_game_def PacMan_def Ghost_def frame_eval MAZE_row_2
          pellets_left_after_power_pellet rectangular_update cong: eval_cong)
  have d: "power_pellet_timer (st\<lparr>power_timer := 0\<rparr>) = st\<lparr>power_timer := 0\<rparr>"
    by (simp add: power_pellet_timer_def)
  show ?thesis using a b c d by (simp only: simp_thms)
qed

section \<open>Fruit\<close>

text \<open>
  C6. The claim: the fruit becomes active when the dots-eaten counter equals 70 or 170, at
  most once per threshold, stays active for 600 ticks or until eaten, and once deactivated
  does not become active again while the counter still equals the same threshold. The
  source tests \<^verbatim>\<open>dots_eaten == 70 or dots_eaten == 170\<close> on every tick and keeps no record
  of a threshold already served: whenever the counter is 70 and the fruit is inactive, the
  fruit is activated again with a fresh timer; with the player on the fruit spot the fruit
  is paid on two consecutive frames (score 500, then 600, then 700).
\<close>

theorem fruit_reactivates_at_same_threshold:
  "update_fruit_timer (st\<lparr>dots_eaten := 70, fruit_active := False\<rparr>)
     = st\<lparr>dots_eaten := 70, fruit_active := True, fruit_timer := 599\<rparr> \<and>
   map_option (\<lambda>s. (score s, fruit_active s, dots_eaten s)) (frame [] fruit_under_player)
     = Some (600, False, 70) \<and>
   map_option (\<lambda>s. (score s, fruit_active s, fruit_timer s, dots_eaten s))
     (repeat 2 (frame []) fruit_under_player) = Some (700, False, 599, 70)"
proof -
  have a: "update_fruit_timer (st\<lparr>dots_eaten := 70, fruit_active := False\<rparr>)
     = st\<lparr>dots_eaten := 70, fruit_active := True, fruit_timer := 599\<rparr>"
    by (simp add: update_fruit_timer_def)
  have b: "map_option (\<lambda>s. (score s, fruit_active s, dots_eaten s)) (frame [] fruit_under_player)
     = Some (600, False, 70)"
    by (simp add: fruit_under_player_def fresh_playing_def get_level_config_1 initial_game_def
          PacMan_def Ghost_def frame_eval MAZE_row_15 pellets_left_MAZE cong: eval_cong)
  have c: "map_option (\<lambda>s. (score s, fruit_active s, fruit_timer s, dots_eaten s))
     (repeat 2 (frame []) fruit_under_player) = Some (700, False, 599, 70)"
    by (simp add: repeat_numeral fruit_under_player_def fresh_playing_def get_level_config_1
          initial_game_def PacMan_def Ghost_def frame_eval MAZE_row_15 pellets_left_MAZE
          cong: eval_cong)
  show ?thesis using a b c by (simp only: simp_thms)
qed

section \<open>Chain scoring\<close>



lemma power_pellet_timer_ghost_score:
  "power_timer st \<noteq> 1 \<Longrightarrow> ghost_score (power_pellet_timer st) = ghost_score st"
  by (simp add: power_pellet_timer_def Let_def)

lemma update_fruit_timer_ghost_score: "ghost_score (update_fruit_timer st) = ghost_score st"
  by (simp add: update_fruit_timer_def Let_def)



section \<open>Targeting\<close>

text \<open>
  At the start of a game the chaser is on (13, 11) and the player on (14, 20) with no
  direction: the source's target is (14, 20), the reflection through the chaser is (15, 29).
\<close>

theorem fickle_target_not_through_chaser:
  "fickle_target PacMan = (14, 20) \<and>
   reflected_fickle_target PacMan (Ghost 13 11 ''chaser'') = (15, 29) \<and>
   fickle_target PacMan \<noteq> reflected_fickle_target PacMan (Ghost 13 11 ''chaser'')"
  by (simp add: fickle_target_def reflected_fickle_target_def PacMan_def Ghost_def)

text \<open>
  C4. The claim: the fickle adversary's target is the pivot (the player's cell offset two
  cells along the player's direction) reflected through the chaser's current cell. The
  source takes the player's own position for the chaser's
  (\<^verbatim>\<open>blinky_x, blinky_y = pacman.x, pacman.y  # Simplified\<close>); \<^verbatim>\<open>ai_move\<close> is not given
  the other adversaries. Amended: the target is the pivot reflected through the player's
  cell, which is the player's cell offset four cells along the player's direction.
\<close>

theorem fickle_target_through_player:
  "ai_target pac (g\<lparr>personality := ''fickle''\<rparr>) = fickle_target pac \<and>
   fickle_target pac = reflected_fickle_target pac (chaser\<lparr>g_x := p_x pac, g_y := p_y pac\<rparr>) \<and>
   fickle_target pac = (p_x pac + p_dx pac * 4, p_y pac + p_dy pac * 4)"
  by (simp add: ai_target_def fickle_target_def reflected_fickle_target_def Let_def)


end
